theory Spec2Isabelle
  imports Complex_Main "HOL-Library.Sublist"
begin

section \<open>Daily Glow Tracker: the item model of \<open>src/App.jsx\<close>\<close>

text \<open>
  The application keeps, for each of six categories, a list of tracked items. The
  component \<open>TrackerPage\<close> edits one such list (add, delete, toggle, rename, seed with
  defaults); the component \<open>App\<close> holds the six lists and exports and imports them as one
  document.

  Conventions of the embedding:
  \<^item> a JavaScript string is a \<open>string\<close>; a \<open>char\<close> stands for a code unit below
    \<open>0x100\<close>;
  \<^item> a JavaScript number is the \<open>real\<close> it denotes; the one arithmetic operation of
    the program, \<open>Date.now() + Math.random()\<close>, is rounded to a double by \<open>binary64\<close>;
  \<^item> the object \<open>item.completed\<close> is a map from day keys to booleans, the only values
    the component ever writes;
  \<^item> the readings of the clock and of the random generator are arguments of the
    operation that takes them;
  \<^item> a React state setter is a record update of the state that is passed along.
\<close>

subsection \<open>\<open>String.prototype.trim\<close>\<close>

text \<open>
  White space and line terminators of ECMAScript among the code units below \<open>0x100\<close>:
  TAB, LF, VT, FF, CR, SP and NBSP.
\<close>

definition isWhiteSpace :: "char \<Rightarrow> bool" where
  "isWhiteSpace c =
     (c \<in> set [CHR 0x09, CHR 0x0A, CHR 0x0B, CHR 0x0C, CHR 0x0D, CHR 0x20, CHR 0xA0])"

definition trim :: "string \<Rightarrow> string" where
  "trim s = rev (dropWhile isWhiteSpace (rev (dropWhile isWhiteSpace s)))"

subsection \<open>Tracked items and the state of a \<open>TrackerPage\<close>\<close>

record item =
  item_id :: real
  name :: string
  completed :: "string \<rightharpoonup> bool"
  createdAt :: string

text \<open>
  \<open>items\<close> is the prop of the page (written through \<open>setItems\<close>); \<open>newItem\<close>,
  \<open>editingItem\<close> (\<open>None\<close> is \<open>null\<close>) and \<open>editValue\<close> are its \<open>useState\<close> cells.
\<close>

record page =
  items :: "item list"
  newItem :: string
  editingItem :: "real option"
  editValue :: string

text \<open>
  \<open>addItem\<close>: \<open>Date_now\<close> is the value of \<open>Date.now()\<close>, \<open>toISOString\<close> that of
  \<open>new Date().toISOString()\<close>. A string is truthy when it is not empty.
\<close>

definition addItem :: "int \<Rightarrow> string \<Rightarrow> page \<Rightarrow> page" where
  "addItem Date_now toISOString pg =
     (if trim (newItem pg) \<noteq> [] then
        (let new = \<lparr>item_id = of_int Date_now, name = trim (newItem pg),
                     completed = Map.empty, createdAt = toISOString\<rparr>
         in pg\<lparr>items := items pg @ [new], newItem := []\<rparr>)
      else pg)"

definition deleteItem :: "real \<Rightarrow> page \<Rightarrow> page" where
  "deleteItem i pg = pg\<lparr>items := filter (\<lambda>it. item_id it \<noteq> i) (items pg)\<rparr>"

text \<open>
  \<open>!newCompleted[today]\<close>: a missing entry reads as \<open>undefined\<close>, whose negation is
  \<open>true\<close>.
\<close>

definition negated :: "bool option \<Rightarrow> bool" where
  "negated v = (case v of None \<Rightarrow> True | Some b \<Rightarrow> \<not> b)"

definition toggleComplete :: "string \<Rightarrow> real \<Rightarrow> page \<Rightarrow> page" where
  "toggleComplete today i pg =
     pg\<lparr>items := map (\<lambda>it.
        if item_id it = i then
          (let newCompleted = completed it;
               newCompleted = newCompleted(today \<mapsto> negated (newCompleted today))
           in it\<lparr>completed := newCompleted\<rparr>)
        else it) (items pg)\<rparr>"

definition startEditing :: "item \<Rightarrow> page \<Rightarrow> page" where
  "startEditing it pg = pg\<lparr>editingItem := Some (item_id it), editValue := name it\<rparr>"

definition saveEdit :: "page \<Rightarrow> page" where
  "saveEdit pg =
     (let pg1 =
        (if trim (editValue pg) \<noteq> [] then
           pg\<lparr>items := map (\<lambda>it.
              if Some (item_id it) = editingItem pg
              then it\<lparr>name := trim (editValue pg)\<rparr>
              else it) (items pg)\<rparr>
         else pg)
      in pg1\<lparr>editingItem := None, editValue := []\<rparr>)"

definition cancelEdit :: "page \<Rightarrow> page" where
  "cancelEdit pg = pg\<lparr>editingItem := None, editValue := []\<rparr>"




subsection \<open>The six stores of \<open>App\<close>, export and import\<close>

text \<open>
  What \<open>JSON.parse\<close> returns. An object is the list of its properties; a parsed object
  has no key twice.
\<close>

datatype json =
    JNull
  | JBool bool
  | JNum real
  | JStr string
  | JArr "json list"
  | JObj "(string \<times> json) list"

datatype js_error = SyntaxError | TypeError

text \<open>
  Each \<open>useLocalStorage\<close> cell holds whatever value was last given to its setter: the
  setter stores the value unchecked and catches every exception of the write.
\<close>

record app =
  skincareItems :: json
  haircareItems :: json
  supplementsItems :: json
  studyItems :: json
  bodycareItems :: json
  exerciseItems :: json

definition setSkincareItems :: "json \<Rightarrow> app \<Rightarrow> app" where
  "setSkincareItems v s = s\<lparr>skincareItems := v\<rparr>"

definition setHaircareItems :: "json \<Rightarrow> app \<Rightarrow> app" where
  "setHaircareItems v s = s\<lparr>haircareItems := v\<rparr>"

definition setSupplementsItems :: "json \<Rightarrow> app \<Rightarrow> app" where
  "setSupplementsItems v s = s\<lparr>supplementsItems := v\<rparr>"

definition setStudyItems :: "json \<Rightarrow> app \<Rightarrow> app" where
  "setStudyItems v s = s\<lparr>studyItems := v\<rparr>"

definition setBodycareItems :: "json \<Rightarrow> app \<Rightarrow> app" where
  "setBodycareItems v s = s\<lparr>bodycareItems := v\<rparr>"

definition setExerciseItems :: "json \<Rightarrow> app \<Rightarrow> app" where
  "setExerciseItems v s = s\<lparr>exerciseItems := v\<rparr>"

text \<open>
  \<open>handleExport\<close> builds the object \<open>data\<close> that \<open>exportData\<close> serialises with
  \<open>JSON.stringify\<close> and offers for download; \<open>toISOString\<close> is the value of
  \<open>new Date().toISOString()\<close>. No store is written.
\<close>

definition handleExport :: "string \<Rightarrow> app \<Rightarrow> json" where
  "handleExport toISOString s =
     JObj [(''skincare'', skincareItems s),
           (''haircare'', haircareItems s),
           (''supplements'', supplementsItems s),
           (''study'', studyItems s),
           (''bodycare'', bodycareItems s),
           (''exercise'', exerciseItems s),
           (''exportDate'', JStr toISOString)]"

text \<open>
  Reading the property \<open>k\<close> of a parsed value, for a key \<open>k\<close> that no prototype
  defines (the six category keys): \<open>null\<close> throws a \<open>TypeError\<close>, an object yields its
  own property or \<open>undefined\<close> (\<open>None\<close>), every other value yields \<open>undefined\<close>.
\<close>

fun js_get :: "json \<Rightarrow> string \<Rightarrow> js_error + json option" where
  "js_get JNull k = Inl TypeError"
| "js_get (JObj kvs) k = Inr (map_of kvs k)"
| "js_get (JBool b) k = Inr None"
| "js_get (JNum n) k = Inr None"
| "js_get (JStr t) k = Inr None"
| "js_get (JArr xs) k = Inr None"

text \<open>The truth value of a condition \<open>if (v)\<close>.\<close>

fun truthy :: "json \<Rightarrow> bool" where
  "truthy JNull = False"
| "truthy (JBool b) = b"
| "truthy (JNum n) = (n \<noteq> 0)"
| "truthy (JStr t) = (t \<noteq> [])"
| "truthy (JArr xs) = True"
| "truthy (JObj kvs) = True"

text \<open>
  A statement inside the \<open>try\<close> block either completes or throws; in both cases the
  setters already called have taken effect.
\<close>

type_synonym stmt = "app \<Rightarrow> js_error option \<times> app"

definition import_category :: "json \<Rightarrow> string \<Rightarrow> (json \<Rightarrow> app \<Rightarrow> app) \<Rightarrow> stmt" where
  "import_category data k setItems s =
     (case js_get data k of
        Inl e \<Rightarrow> (Some e, s)
      | Inr None \<Rightarrow> (None, s)
      | Inr (Some v) \<Rightarrow> (None, if truthy v then setItems v s else s))"

definition then_do :: "stmt \<Rightarrow> stmt \<Rightarrow> stmt" where
  "then_do f g s = (case f s of (None, s1) \<Rightarrow> g s1 | (Some e, s1) \<Rightarrow> (Some e, s1))"

definition import_success :: string where
  "import_success = ''Data imported successfully!''"

definition import_failure :: string where
  "import_failure = ''Error importing data. Please check the file format.''"

text \<open>
  \<open>reader.onload\<close>: \<open>parsed\<close> is the outcome of \<open>JSON.parse(e.target.result)\<close>, a
  \<open>SyntaxError\<close> or the parsed value. The result is the text of the alert and the new
  state.
\<close>

definition reader_onload :: "js_error + json \<Rightarrow> app \<Rightarrow> string \<times> app" where
  "reader_onload parsed s =
     (case parsed of
        Inl e \<Rightarrow> (import_failure, s)
      | Inr data \<Rightarrow>
          (case (then_do (import_category data ''skincare'' setSkincareItems)
                (then_do (import_category data ''haircare'' setHaircareItems)
                (then_do (import_category data ''supplements'' setSupplementsItems)
                (then_do (import_category data ''study'' setStudyItems)
                (then_do (import_category data ''bodycare'' setBodycareItems)
                         (import_category data ''exercise'' setExerciseItems)))))) s of
             (None, s1) \<Rightarrow> (import_success, s1)
           | (Some e, s1) \<Rightarrow> (import_failure, s1)))"

text \<open>
  \<open>handleImport\<close>: \<open>file\<close> is \<open>None\<close> when the event carries no file; otherwise it is the
  outcome of parsing the text of the file, handed to \<open>reader.onload\<close>.
\<close>

definition handleImport :: "(js_error + json) option \<Rightarrow> app \<Rightarrow> string option \<times> app" where
  "handleImport file s =
     (case file of
        None \<Rightarrow> (None, s)
      | Some parsed \<Rightarrow> (case reader_onload parsed s of (msg, s1) \<Rightarrow> (Some msg, s1)))"

text \<open>
  The tab identifiers of \<open>Sidebar\<close> and the store that \<open>renderActiveTab\<close> shows for each.
\<close>

datatype category = Skincare | Haircare | Supplements | Study | Bodycare | Exercise

fun category_key :: "category \<Rightarrow> string" where
  "category_key Skincare = ''skincare''"
| "category_key Haircare = ''haircare''"
| "category_key Supplements = ''supplements''"
| "category_key Study = ''study''"
| "category_key Bodycare = ''bodycare''"
| "category_key Exercise = ''exercise''"

fun category_items :: "category \<Rightarrow> app \<Rightarrow> json" where
  "category_items Skincare s = skincareItems s"
| "category_items Haircare s = haircareItems s"
| "category_items Supplements s = supplementsItems s"
| "category_items Study s = studyItems s"
| "category_items Bodycare s = bodycareItems s"
| "category_items Exercise s = exerciseItems s"

subsection \<open>Auxiliary notions for the proofs\<close>

text \<open>
  The value a store holds after one statement \<open>if (data.k) setItems(data.k)\<close> that did
  not throw, and the state after it.
\<close>

definition imported :: "json \<Rightarrow> string \<Rightarrow> json \<Rightarrow> json" where
  "imported data k old =
     (case js_get data k of Inr (Some v) \<Rightarrow> if truthy v then v else old | _ \<Rightarrow> old)"

definition stored :: "json \<Rightarrow> string \<Rightarrow> (json \<Rightarrow> app \<Rightarrow> app) \<Rightarrow> app \<Rightarrow> app" where
  "stored data k f s =
     (case js_get data k of Inr (Some v) \<Rightarrow> if truthy v then f v s else s | _ \<Rightarrow> s)"

subsection \<open>Example data\<close>

abbreviation today_ex :: string where
  "today_ex \<equiv> ''Mon Nov 02 2026''"

abbreviation yesterday_ex :: string where
  "yesterday_ex \<equiv> ''Sun Nov 01 2026''"

text \<open>An item that was never toggled today, and one that was completed on both days.\<close>

abbreviation run_item :: item where
  "run_item \<equiv> \<lparr>item_id = 1793660400000, name = ''Run'', completed = Map.empty,
                createdAt = ''2026-11-02T09:00:00.000Z''\<rparr>"

abbreviation yoga_item :: item where
  "yoga_item \<equiv> \<lparr>item_id = 1793574000000, name = ''Yoga'',
                 completed = [today_ex \<mapsto> True, yesterday_ex \<mapsto> True],
                 createdAt = ''2026-11-01T09:00:00.000Z''\<rparr>"

abbreviation page_of :: "item list \<Rightarrow> page" where
  "page_of xs \<equiv> \<lparr>items = xs, newItem = [], editingItem = None, editValue = []\<rparr>"

abbreviation empty_app :: app where
  "empty_app \<equiv> \<lparr>skincareItems = JArr [], haircareItems = JArr [], supplementsItems = JArr [],
                 studyItems = JArr [], bodycareItems = JArr [], exerciseItems = JArr []\<rparr>"

abbreviation run_json :: json where
  "run_json \<equiv> JObj [(''id'', JNum 1793660400000), (''name'', JStr ''Run''),
                     (''completed'', JObj []),
                     (''createdAt'', JStr ''2026-11-02T09:00:00.000Z'')]"

abbreviation some_app :: app where
  "some_app \<equiv> \<lparr>skincareItems = JArr [], haircareItems = JArr [], supplementsItems = JArr [],
                studyItems = JArr [], bodycareItems = JArr [], exerciseItems = JArr [run_json]\<rparr>"

section \<open>Properties of the page operations\<close>

subsection \<open>Shared lemmas\<close>

lemma map_unchanged: "(\<forall>x\<in>set xs. \<not> P x) \<Longrightarrow> map (\<lambda>x. if P x then f x else x) xs = xs"
  by (induction xs) auto

lemma count_list_filter: "P x \<Longrightarrow> count_list (filter P xs) x = count_list xs x"
  by (induction xs) auto

lemma toggleComplete_length: "length (items (toggleComplete today i pg)) = length (items pg)"
  by (simp add: toggleComplete_def)

lemma toggleComplete_nth:
  "k < length (items pg) \<Longrightarrow>
   items (toggleComplete today i pg) ! k =
     (if item_id (items pg ! k) = i
      then (items pg ! k)\<lparr>completed :=
             (completed (items pg ! k))(today \<mapsto> negated (completed (items pg ! k) today))\<rparr>
      else items pg ! k)"
  by (simp add: toggleComplete_def Let_def)

lemma toggleComplete_twice_items:
  "(\<forall>it\<in>set xs. item_id it = i \<longrightarrow> completed it today \<noteq> None) \<Longrightarrow>
   items (toggleComplete today i (toggleComplete today i (pg\<lparr>items := xs\<rparr>))) = xs"
  by (induction xs) (auto simp: toggleComplete_def Let_def negated_def map_upd_triv)

lemma saveEdit_items:
  "items (saveEdit pg) =
     (if trim (editValue pg) \<noteq> [] then
        map (\<lambda>it. if Some (item_id it) = editingItem pg
                  then it\<lparr>name := trim (editValue pg)\<rparr> else it) (items pg)
      else items pg)"
  by (simp add: saveEdit_def Let_def)




subsection \<open>Toggling today's completion\<close>

text \<open>
  Claim C1, as the code has it. One call of \<open>toggleComplete\<close> keeps the length of the
  list; an item with another id is kept as it is, with all its entries; an item with the
  toggled id keeps its id, its name, its creation time and the entries of all days other
  than today, and its entry for today becomes the negation of what it read before. Two
  successive calls with the same day and the same id give back the original page provided
  every item with that id already had an entry for today.
\<close>

theorem toggleComplete_frame_and_restore:
  "length (items (toggleComplete today i pg)) = length (items pg) \<and>
   (\<forall>k d. k < length (items pg) \<longrightarrow>
      item_id (items (toggleComplete today i pg) ! k) = item_id (items pg ! k) \<and>
      name (items (toggleComplete today i pg) ! k) = name (items pg ! k) \<and>
      createdAt (items (toggleComplete today i pg) ! k) = createdAt (items pg ! k) \<and>
      (d \<noteq> today \<longrightarrow>
         completed (items (toggleComplete today i pg) ! k) d = completed (items pg ! k) d) \<and>
      (item_id (items pg ! k) \<noteq> i \<longrightarrow>
         items (toggleComplete today i pg) ! k = items pg ! k) \<and>
      (item_id (items pg ! k) = i \<longrightarrow>
         completed (items (toggleComplete today i pg) ! k) today
           = Some (negated (completed (items pg ! k) today)))) \<and>
   ((\<forall>it\<in>set (items pg). item_id it = i \<longrightarrow> completed it today \<noteq> None) \<longrightarrow>
      toggleComplete today i (toggleComplete today i pg) = pg)"
proof (intro conjI allI impI)
  show "length (items (toggleComplete today i pg)) = length (items pg)"
    by (rule toggleComplete_length)
next
  fix k d assume k: "k < length (items pg)"
  then show "item_id (items (toggleComplete today i pg) ! k) = item_id (items pg ! k)"
    by (simp add: toggleComplete_nth)
  from k show "name (items (toggleComplete today i pg) ! k) = name (items pg ! k)"
    by (simp add: toggleComplete_nth)
  from k show "createdAt (items (toggleComplete today i pg) ! k) = createdAt (items pg ! k)"
    by (simp add: toggleComplete_nth)
  {
    assume "d \<noteq> today"
    with k show "completed (items (toggleComplete today i pg) ! k) d
                   = completed (items pg ! k) d"
      by (simp add: toggleComplete_nth)
  }
  {
    assume "item_id (items pg ! k) \<noteq> i"
    with k show "items (toggleComplete today i pg) ! k = items pg ! k"
      by (simp add: toggleComplete_nth)
  }
  {
    assume "item_id (items pg ! k) = i"
    with k show "completed (items (toggleComplete today i pg) ! k) today
                   = Some (negated (completed (items pg ! k) today))"
      by (simp add: toggleComplete_nth)
  }
next
  assume h: "\<forall>it\<in>set (items pg). item_id it = i \<longrightarrow> completed it today \<noteq> None"
  have "items (toggleComplete today i (toggleComplete today i (pg\<lparr>items := items pg\<rparr>)))
          = items pg"
    using h by (rule toggleComplete_twice_items)
  then show "toggleComplete today i (toggleComplete today i pg) = pg"
    by (simp add: toggleComplete_def)
qed

text \<open>
  Witness for C1: a page with Run, never toggled today, and Yoga, which has entries for
  today and for yesterday. Toggling Yoga twice today restores the page; one toggle leaves
  Run as it is, without an entry for today, leaves Yoga's entry for yesterday as it was
  and turns Yoga's entry for today to \<open>false\<close>.
\<close>

theorem toggleComplete_frame_and_restore_witness:
  "completed yoga_item today_ex = Some True \<and>
   item_id run_item \<noteq> 1793574000000 \<and>
   toggleComplete today_ex 1793574000000
     (toggleComplete today_ex 1793574000000 (page_of [run_item, yoga_item]))
     = page_of [run_item, yoga_item] \<and>
   items (toggleComplete today_ex 1793574000000 (page_of [run_item, yoga_item])) ! 0
     = run_item \<and>
   completed (items (toggleComplete today_ex 1793574000000 (page_of [run_item, yoga_item])) ! 0)
     today_ex = None \<and>
   completed (items (toggleComplete today_ex 1793574000000 (page_of [run_item, yoga_item])) ! 1)
     yesterday_ex = Some True \<and>
   completed (items (toggleComplete today_ex 1793574000000 (page_of [run_item, yoga_item])) ! 1)
     today_ex = Some False"
proof -
  let ?pg = "page_of [run_item, yoga_item]"
  let ?r = "items (toggleComplete today_ex 1793574000000 ?pg)"
  note t = toggleComplete_frame_and_restore [of today_ex 1793574000000 ?pg]
  have c: "completed yoga_item today_ex = Some True"
    by simp
  have n: "item_id run_item \<noteq> 1793574000000"
    by simp
  have h: "\<forall>it\<in>set (items ?pg). item_id it = 1793574000000 \<longrightarrow> completed it today_ex \<noteq> None"
    by auto
  from t h have r: "toggleComplete today_ex 1793574000000
                      (toggleComplete today_ex 1793574000000 ?pg) = ?pg"
    by (elim conjE) (erule mp)
  from t have f: "\<forall>k d. k < length (items ?pg) \<longrightarrow>
      item_id (?r ! k) = item_id (items ?pg ! k) \<and>
      name (?r ! k) = name (items ?pg ! k) \<and>
      createdAt (?r ! k) = createdAt (items ?pg ! k) \<and>
      (d \<noteq> today_ex \<longrightarrow> completed (?r ! k) d = completed (items ?pg ! k) d) \<and>
      (item_id (items ?pg ! k) \<noteq> 1793574000000 \<longrightarrow> ?r ! k = items ?pg ! k) \<and>
      (item_id (items ?pg ! k) = 1793574000000 \<longrightarrow>
         completed (?r ! k) today_ex = Some (negated (completed (items ?pg ! k) today_ex)))"
    by (elim conjE)
  from f have f0: "item_id (items ?pg ! 0) \<noteq> 1793574000000 \<longrightarrow> ?r ! 0 = items ?pg ! 0"
    by (elim allE [of _ 0] allE [of _ yesterday_ex]) simp
  then have a: "?r ! 0 = run_item"
    by simp
  then have b: "completed (?r ! 0) today_ex = None"
    by simp
  from f have f1: "(yesterday_ex \<noteq> today_ex \<longrightarrow>
        completed (?r ! 1) yesterday_ex = completed (items ?pg ! 1) yesterday_ex) \<and>
      (item_id (items ?pg ! 1) = 1793574000000 \<longrightarrow>
         completed (?r ! 1) today_ex = Some (negated (completed (items ?pg ! 1) today_ex)))"
    by (elim allE [of _ 1] allE [of _ yesterday_ex]) simp
  then have y: "completed (?r ! 1) yesterday_ex = Some True"
    by simp
  from f1 have z: "completed (?r ! 1) today_ex = Some False"
    by (simp add: negated_def)
  from c n r a b y z show ?thesis by (intro conjI)
qed

text \<open>
  Counterexample to C1 as stated: Run has no entry for today; after two toggles the list
  differs from the original one.
\<close>

theorem toggleComplete_twice_counterexample:
  "items (toggleComplete today_ex 1793660400000
            (toggleComplete today_ex 1793660400000 (page_of [run_item])))
     \<noteq> items (page_of [run_item])"
proof
  assume "items (toggleComplete today_ex 1793660400000
            (toggleComplete today_ex 1793660400000 (page_of [run_item])))
     = items (page_of [run_item])"
  then have "completed (hd (items (toggleComplete today_ex 1793660400000
            (toggleComplete today_ex 1793660400000 (page_of [run_item]))))) today_ex
     = completed (hd (items (page_of [run_item]))) today_ex"
    by (rule arg_cong)
  then show False
    by (simp add: toggleComplete_def negated_def)
qed

text \<open>
  Claim C9. An item with the toggled id and no entry for today has, after two calls of
  \<open>toggleComplete\<close>, the explicit entry \<open>false\<close> for today.
\<close>

theorem toggleComplete_twice_absent:
  "k < length (items pg) \<Longrightarrow> item_id (items pg ! k) = i \<Longrightarrow>
   completed (items pg ! k) today = None \<Longrightarrow>
   completed (items (toggleComplete today i (toggleComplete today i pg)) ! k) today
     = Some False"
  by (simp add: toggleComplete_nth toggleComplete_length negated_def)

text \<open>Witness for C9: the item Run, never toggled today.\<close>

theorem toggleComplete_twice_absent_witness:
  "0 < length (items (page_of [run_item])) \<and>
   item_id (items (page_of [run_item]) ! 0) = 1793660400000 \<and>
   completed (items (page_of [run_item]) ! 0) today_ex = None \<and>
   completed (items (toggleComplete today_ex 1793660400000
       (toggleComplete today_ex 1793660400000 (page_of [run_item]))) ! 0) today_ex
     = Some False"
  using toggleComplete_twice_absent [of 0 "page_of [run_item]" 1793660400000 today_ex]
  by simp

subsection \<open>Adding an item\<close>

text \<open>
  Claim C2, as the code has it. When the typed name is not empty after trimming,
  \<open>addItem\<close> appends exactly one item at the end: its name is the trimmed name, its
  completion map is empty, its id is the reading of the clock; the items that were there
  are kept as they are, in place. The ids of the new list are pairwise distinct exactly
  when the old ids were and no old item has the reading of the clock as its id.
\<close>

theorem addItem_appends:
  "trim (newItem pg) \<noteq> [] \<Longrightarrow>
     items (addItem Date_now toISOString pg) =
       items pg @ [\<lparr>item_id = of_int Date_now, name = trim (newItem pg),
                    completed = Map.empty, createdAt = toISOString\<rparr>] \<and>
     length (items (addItem Date_now toISOString pg)) = length (items pg) + 1 \<and>
     take (length (items pg)) (items (addItem Date_now toISOString pg)) = items pg \<and>
     (distinct (map item_id (items (addItem Date_now toISOString pg))) \<longleftrightarrow>
        distinct (map item_id (items pg)) \<and> of_int Date_now \<notin> item_id ` set (items pg))"
  by (auto simp: addItem_def Let_def)

text \<open>
  Witness for C2: "Yoga" typed with surrounding blanks, added one millisecond after Run
  was created.
\<close>

theorem addItem_appends_witness:
  "trim (newItem ((page_of [run_item])\<lparr>newItem := '' Yoga ''\<rparr>)) \<noteq> [] \<and>
   items (addItem 1793660400001 ''2026-11-02T09:00:00.001Z''
            ((page_of [run_item])\<lparr>newItem := '' Yoga ''\<rparr>)) =
     [run_item,
      \<lparr>item_id = 1793660400001, name = ''Yoga'', completed = Map.empty,
       createdAt = ''2026-11-02T09:00:00.001Z''\<rparr>] \<and>
   distinct (map item_id (items (addItem 1793660400001 ''2026-11-02T09:00:00.001Z''
            ((page_of [run_item])\<lparr>newItem := '' Yoga ''\<rparr>))))"
  using addItem_appends [of "(page_of [run_item])\<lparr>newItem := '' Yoga ''\<rparr>"
          1793660400001 "''2026-11-02T09:00:00.001Z''"]
  by (simp add: trim_def isWhiteSpace_def)

text \<open>
  Counterexample to C2 as stated: the clock reads the id that Run already has; the new
  item's id is then not unique in the list.
\<close>

theorem addItem_id_counterexample:
  "trim (newItem ((page_of [run_item])\<lparr>newItem := ''Yoga''\<rparr>)) \<noteq> [] \<and>
   distinct (map item_id (items ((page_of [run_item])\<lparr>newItem := ''Yoga''\<rparr>))) \<and>
   \<not> distinct (map item_id (items (addItem 1793660400000 ''2026-11-02T09:00:00.000Z''
                  ((page_of [run_item])\<lparr>newItem := ''Yoga''\<rparr>))))"
  by (simp add: addItem_def Let_def trim_def isWhiteSpace_def)

subsection \<open>Operations that change nothing\<close>

text \<open>
  Claim C6. Every operation is a function from the page and its arguments to a page; none
  has an error result. \<open>addItem\<close> with a name that is empty after trimming returns the
  page as it is; \<open>saveEdit\<close> with such a name, or with an id that no item has, keeps the
  list; \<open>deleteItem\<close> and \<open>toggleComplete\<close> with an id that no item has return the page
  as it is.
\<close>

theorem operations_noop:
  "(trim (newItem pg) = [] \<longrightarrow> addItem Date_now toISOString pg = pg) \<and>
   (trim (editValue pg) = [] \<longrightarrow> items (saveEdit pg) = items pg) \<and>
   (editingItem pg = Some i \<and> i \<notin> item_id ` set (items pg) \<longrightarrow>
      items (saveEdit pg) = items pg) \<and>
   (i \<notin> item_id ` set (items pg) \<longrightarrow> deleteItem i pg = pg) \<and>
   (i \<notin> item_id ` set (items pg) \<longrightarrow> toggleComplete today i pg = pg)"
proof (intro conjI impI)
  assume "trim (newItem pg) = []"
  then show "addItem Date_now toISOString pg = pg"
    by (simp add: addItem_def)
next
  assume "trim (editValue pg) = []"
  then show "items (saveEdit pg) = items pg"
    by (simp add: saveEdit_items)
next
  assume "editingItem pg = Some i \<and> i \<notin> item_id ` set (items pg)"
  then have "\<forall>it\<in>set (items pg). \<not> Some (item_id it) = editingItem pg"
    by auto
  then show "items (saveEdit pg) = items pg"
    by (simp add: saveEdit_items map_unchanged)
next
  assume "i \<notin> item_id ` set (items pg)"
  then have "filter (\<lambda>it. item_id it \<noteq> i) (items pg) = items pg"
    by (auto simp: filter_id_conv)
  then show "deleteItem i pg = pg"
    by (simp add: deleteItem_def)
next
  assume "i \<notin> item_id ` set (items pg)"
  then have "\<forall>it\<in>set (items pg). \<not> item_id it = i"
    by auto
  then show "toggleComplete today i pg = pg"
    by (simp add: toggleComplete_def Let_def map_unchanged)
qed

text \<open>
  Witness for C6: a page holding Run, with blank text in both input fields and \<open>7\<close>, the
  id of no item, as the item being edited.
\<close>

theorem operations_noop_witness:
  "trim (newItem ((page_of [run_item])
      \<lparr>newItem := ''   '', editingItem := Some 7, editValue := '' ''\<rparr>)) = [] \<and>
   trim (editValue ((page_of [run_item])
      \<lparr>newItem := ''   '', editingItem := Some 7, editValue := '' ''\<rparr>)) = [] \<and>
   7 \<notin> item_id ` set (items ((page_of [run_item])
      \<lparr>newItem := ''   '', editingItem := Some 7, editValue := '' ''\<rparr>)) \<and>
   items (addItem 1793660400001 ''2026-11-02T09:00:00.001Z'' ((page_of [run_item])
      \<lparr>newItem := ''   '', editingItem := Some 7, editValue := '' ''\<rparr>)) = [run_item] \<and>
   items (saveEdit ((page_of [run_item])
      \<lparr>newItem := ''   '', editingItem := Some 7, editValue := '' ''\<rparr>)) = [run_item] \<and>
   items (deleteItem 7 ((page_of [run_item])
      \<lparr>newItem := ''   '', editingItem := Some 7, editValue := '' ''\<rparr>)) = [run_item] \<and>
   items (toggleComplete today_ex 7 ((page_of [run_item])
      \<lparr>newItem := ''   '', editingItem := Some 7, editValue := '' ''\<rparr>)) = [run_item]"
  using operations_noop [of "(page_of [run_item])
      \<lparr>newItem := ''   '', editingItem := Some 7, editValue := '' ''\<rparr>"
      1793660400001 "''2026-11-02T09:00:00.001Z''" 7 today_ex]
  by (simp add: trim_def isWhiteSpace_def)

subsection \<open>Renaming an item\<close>

text \<open>
  Claim C7. When the edited name is not empty after trimming and the item being edited
  has id \<open>i\<close>, \<open>saveEdit\<close> keeps the length and the order of the list; the item at each
  position is the old one with the trimmed name if its id is \<open>i\<close>, and the old one
  otherwise. The ids, the completion maps and the creation times of the list are those it
  had.
\<close>

theorem saveEdit_renames:
  "trim (editValue pg) \<noteq> [] \<Longrightarrow> editingItem pg = Some i \<Longrightarrow>
     length (items (saveEdit pg)) = length (items pg) \<and>
     (\<forall>k<length (items pg).
        items (saveEdit pg) ! k =
          (if item_id (items pg ! k) = i then (items pg ! k)\<lparr>name := trim (editValue pg)\<rparr>
           else items pg ! k)) \<and>
     map item_id (items (saveEdit pg)) = map item_id (items pg) \<and>
     map completed (items (saveEdit pg)) = map completed (items pg) \<and>
     map createdAt (items (saveEdit pg)) = map createdAt (items pg)"
  by (simp add: saveEdit_items)

text \<open>Witness for C7: Yoga, second of two items, is renamed to "Morning yoga".\<close>

theorem saveEdit_renames_witness:
  "trim (editValue ((page_of [run_item, yoga_item])
      \<lparr>editingItem := Some 1793574000000, editValue := ''Morning yoga ''\<rparr>)) \<noteq> [] \<and>
   items (saveEdit ((page_of [run_item, yoga_item])
      \<lparr>editingItem := Some 1793574000000, editValue := ''Morning yoga ''\<rparr>))
     = [run_item, yoga_item\<lparr>name := ''Morning yoga''\<rparr>]"
proof -
  let ?pg = "(page_of [run_item, yoga_item])
      \<lparr>editingItem := Some 1793574000000, editValue := ''Morning yoga ''\<rparr>"
  have t: "trim (editValue ?pg) = ''Morning yoga''"
    by (simp add: trim_def isWhiteSpace_def)
  then have n: "trim (editValue ?pg) \<noteq> []"
    by simp
  have e: "editingItem ?pg = Some 1793574000000"
    by simp
  note r = saveEdit_renames [OF n e]
  from r have l: "length (items (saveEdit ?pg)) = 2"
    by simp
  from r have "\<forall>k<length (items ?pg). items (saveEdit ?pg) ! k =
          (if item_id (items ?pg ! k) = 1793574000000
           then (items ?pg ! k)\<lparr>name := trim (editValue ?pg)\<rparr>
           else items ?pg ! k)"
    by (elim conjE)
  then have k: "\<forall>k<2. items (saveEdit ?pg) ! k =
          (if item_id ([run_item, yoga_item] ! k) = 1793574000000
           then ([run_item, yoga_item] ! k)\<lparr>name := ''Morning yoga''\<rparr>
           else [run_item, yoga_item] ! k)"
    unfolding t by simp
  have "items (saveEdit ?pg) = [run_item, yoga_item\<lparr>name := ''Morning yoga''\<rparr>]"
  proof (rule nth_equalityI)
    show "length (items (saveEdit ?pg))
            = length [run_item, yoga_item\<lparr>name := ''Morning yoga''\<rparr>]"
      using l by simp
  next
    fix j assume "j < length (items (saveEdit ?pg))"
    then have "j = 0 \<or> j = 1" using l by auto
    then show "items (saveEdit ?pg) ! j
                 = [run_item, yoga_item\<lparr>name := ''Morning yoga''\<rparr>] ! j"
      using k by auto
  qed
  with n show ?thesis by (intro conjI)
qed

subsection \<open>Deleting an item\<close>

text \<open>
  Claim C10. After \<open>deleteItem i\<close> no item with id \<open>i\<close> is left, however many there were;
  the new list is a subsequence of the old one, so the remaining items keep their relative
  order; every item with another id occurs as often as before.
\<close>

theorem deleteItem_removes_all:
  "i \<notin> item_id ` set (items (deleteItem i pg)) \<and>
   subseq (items (deleteItem i pg)) (items pg) \<and>
   (\<forall>it. item_id it \<noteq> i \<longrightarrow>
      count_list (items (deleteItem i pg)) it = count_list (items pg) it)"
  by (auto simp: deleteItem_def count_list_filter)

text \<open>
  Witness for C10: Run occurs twice, around Yoga; deleting its id removes both
  occurrences and keeps Yoga.
\<close>

theorem deleteItem_removes_all_witness:
  "item_id yoga_item \<noteq> 1793660400000 \<and>
   1793660400000 \<notin> item_id `
      set (items (deleteItem 1793660400000 (page_of [run_item, yoga_item, run_item]))) \<and>
   count_list (items (deleteItem 1793660400000 (page_of [run_item, yoga_item, run_item])))
      yoga_item = 1 \<and>
   items (deleteItem 1793660400000 (page_of [run_item, yoga_item, run_item])) = [yoga_item]"
proof -
  note d = deleteItem_removes_all
             [of 1793660400000 "page_of [run_item, yoga_item, run_item]"]
  have n: "item_id yoga_item \<noteq> 1793660400000"
    by simp
  from d have a: "1793660400000 \<notin> item_id `
      set (items (deleteItem 1793660400000 (page_of [run_item, yoga_item, run_item])))"
    by (elim conjE)
  from d have "\<forall>it. item_id it \<noteq> 1793660400000 \<longrightarrow>
      count_list (items (deleteItem 1793660400000 (page_of [run_item, yoga_item, run_item]))) it
        = count_list (items (page_of [run_item, yoga_item, run_item])) it"
    by (elim conjE)
  then have "count_list
      (items (deleteItem 1793660400000 (page_of [run_item, yoga_item, run_item]))) yoga_item
        = count_list (items (page_of [run_item, yoga_item, run_item])) yoga_item"
    using n by (elim allE [of _ yoga_item]) (erule mp)
  moreover have "count_list (items (page_of [run_item, yoga_item, run_item])) yoga_item = 1"
    by simp
  ultimately have c: "count_list
      (items (deleteItem 1793660400000 (page_of [run_item, yoga_item, run_item]))) yoga_item = 1"
    by simp
  have e: "items (deleteItem 1793660400000 (page_of [run_item, yoga_item, run_item]))
             = [yoga_item]"
    by (simp add: deleteItem_def)
  from n a c e show ?thesis by (intro conjI)
qed

subsection \<open>Seeding with the default items\<close>




section \<open>Properties of export and import\<close>

subsection \<open>Shared lemmas\<close>

lemma import_category_JNull: "import_category JNull k f s = (Some TypeError, s)"
  by (simp add: import_category_def)

lemma import_category_stored:
  "data \<noteq> JNull \<Longrightarrow> import_category data k f = (\<lambda>s. (None, stored data k f s))"
  by (cases data) (auto simp: import_category_def stored_def fun_eq_iff split: option.splits)

lemma then_do_None: "then_do (\<lambda>s. (None, h s)) g = (\<lambda>s. g (h s))"
  by (simp add: then_do_def fun_eq_iff)

lemma reader_onload_JNull: "reader_onload (Inr JNull) s = (import_failure, s)"
  by (simp add: reader_onload_def then_do_def import_category_JNull)

lemma reader_onload_stored:
  "data \<noteq> JNull \<Longrightarrow>
   reader_onload (Inr data) s =
     (import_success,
      stored data ''exercise'' setExerciseItems
       (stored data ''bodycare'' setBodycareItems
         (stored data ''study'' setStudyItems
           (stored data ''supplements'' setSupplementsItems
             (stored data ''haircare'' setHaircareItems
               (stored data ''skincare'' setSkincareItems s))))))"
  by (simp add: reader_onload_def import_category_stored then_do_None)

lemma stored_fields:
  "skincareItems (stored data k setSkincareItems s) = imported data k (skincareItems s)"
  "skincareItems (stored data k setHaircareItems s) = skincareItems s"
  "skincareItems (stored data k setSupplementsItems s) = skincareItems s"
  "skincareItems (stored data k setStudyItems s) = skincareItems s"
  "skincareItems (stored data k setBodycareItems s) = skincareItems s"
  "skincareItems (stored data k setExerciseItems s) = skincareItems s"
  "haircareItems (stored data k setSkincareItems s) = haircareItems s"
  "haircareItems (stored data k setHaircareItems s) = imported data k (haircareItems s)"
  "haircareItems (stored data k setSupplementsItems s) = haircareItems s"
  "haircareItems (stored data k setStudyItems s) = haircareItems s"
  "haircareItems (stored data k setBodycareItems s) = haircareItems s"
  "haircareItems (stored data k setExerciseItems s) = haircareItems s"
  "supplementsItems (stored data k setSkincareItems s) = supplementsItems s"
  "supplementsItems (stored data k setHaircareItems s) = supplementsItems s"
  "supplementsItems (stored data k setSupplementsItems s) = imported data k (supplementsItems s)"
  "supplementsItems (stored data k setStudyItems s) = supplementsItems s"
  "supplementsItems (stored data k setBodycareItems s) = supplementsItems s"
  "supplementsItems (stored data k setExerciseItems s) = supplementsItems s"
  "studyItems (stored data k setSkincareItems s) = studyItems s"
  "studyItems (stored data k setHaircareItems s) = studyItems s"
  "studyItems (stored data k setSupplementsItems s) = studyItems s"
  "studyItems (stored data k setStudyItems s) = imported data k (studyItems s)"
  "studyItems (stored data k setBodycareItems s) = studyItems s"
  "studyItems (stored data k setExerciseItems s) = studyItems s"
  "bodycareItems (stored data k setSkincareItems s) = bodycareItems s"
  "bodycareItems (stored data k setHaircareItems s) = bodycareItems s"
  "bodycareItems (stored data k setSupplementsItems s) = bodycareItems s"
  "bodycareItems (stored data k setStudyItems s) = bodycareItems s"
  "bodycareItems (stored data k setBodycareItems s) = imported data k (bodycareItems s)"
  "bodycareItems (stored data k setExerciseItems s) = bodycareItems s"
  "exerciseItems (stored data k setSkincareItems s) = exerciseItems s"
  "exerciseItems (stored data k setHaircareItems s) = exerciseItems s"
  "exerciseItems (stored data k setSupplementsItems s) = exerciseItems s"
  "exerciseItems (stored data k setStudyItems s) = exerciseItems s"
  "exerciseItems (stored data k setBodycareItems s) = exerciseItems s"
  "exerciseItems (stored data k setExerciseItems s) = imported data k (exerciseItems s)"
  by (simp_all add: stored_def imported_def setSkincareItems_def setHaircareItems_def
        setSupplementsItems_def setStudyItems_def setBodycareItems_def setExerciseItems_def
      split: sum.splits option.splits)

lemma category_items_reader_onload:
  "category_items c (snd (reader_onload (Inr data) s))
     = imported data (category_key c) (category_items c s)"
proof (cases "data = JNull")
  case True
  then show ?thesis by (simp add: reader_onload_JNull imported_def)
next
  case False
  then show ?thesis by (cases c) (simp_all add: reader_onload_stored stored_fields)
qed

lemma handleExport_not_null: "handleExport stamp s \<noteq> JNull"
  by (simp add: handleExport_def)

lemma js_get_handleExport:
  "js_get (handleExport stamp s) (category_key c) = Inr (Some (category_items c s))"
  by (cases c) (simp_all add: handleExport_def)

lemma app_eqI:
  assumes h: "\<And>c. category_items c s = category_items c t"
  shows "s = (t :: app)"
proof -
  have "skincareItems s = skincareItems t" using h [of Skincare] by simp
  moreover have "haircareItems s = haircareItems t" using h [of Haircare] by simp
  moreover have "supplementsItems s = supplementsItems t" using h [of Supplements] by simp
  moreover have "studyItems s = studyItems t" using h [of Study] by simp
  moreover have "bodycareItems s = bodycareItems t" using h [of Bodycare] by simp
  moreover have "exerciseItems s = exerciseItems t" using h [of Exercise] by simp
  ultimately show ?thesis by simp
qed

subsection \<open>What import overwrites\<close>

text \<open>
  Claim C3, as the code has it. After \<open>reader.onload\<close> on a parsed document, the store of
  a category holds the document's value for the key of the category when that key is
  present with a truthy value, and what it held before in every other case (key absent,
  value falsy, document not an object). A sequence is truthy, so a key that holds a
  sequence always overwrites its store with that sequence, and an absent key never
  changes its store.
\<close>

theorem import_overwrites_truthy:
  "category_items c (snd (reader_onload (Inr data) s)) =
     (case js_get data (category_key c) of
        Inr (Some v) \<Rightarrow> if truthy v then v else category_items c s
      | _ \<Rightarrow> category_items c s) \<and>
   (js_get data (category_key c) = Inr (Some (JArr xs)) \<longrightarrow>
      category_items c (snd (reader_onload (Inr data) s)) = JArr xs) \<and>
   (js_get data (category_key c) = Inr None \<longrightarrow>
      category_items c (snd (reader_onload (Inr data) s)) = category_items c s)"
  by (simp add: category_items_reader_onload imported_def)

text \<open>
  Witness for C3: a document with the only key \<open>skincare\<close>, holding a one-item sequence,
  imported over a state whose exercise store holds an item: the skincare store takes the
  sequence, the exercise store is as before.
\<close>

theorem import_overwrites_truthy_witness:
  "js_get (JObj [(''skincare'', JArr [run_json])]) (category_key Skincare)
     = Inr (Some (JArr [run_json])) \<and>
   js_get (JObj [(''skincare'', JArr [run_json])]) (category_key Exercise) = Inr None \<and>
   category_items Skincare
     (snd (reader_onload (Inr (JObj [(''skincare'', JArr [run_json])])) some_app))
     = JArr [run_json] \<and>
   category_items Exercise
     (snd (reader_onload (Inr (JObj [(''skincare'', JArr [run_json])])) some_app))
     = JArr [run_json]"
  using import_overwrites_truthy
          [of Skincare "JObj [(''skincare'', JArr [run_json])]" some_app "[run_json]"]
        import_overwrites_truthy
          [of Exercise "JObj [(''skincare'', JArr [run_json])]" some_app "[]"]
  by simp

text \<open>
  Counterexample to C3 as stated: the key \<open>skincare\<close> holds an empty object, which is not
  a sequence; the skincare store is overwritten with it all the same.
\<close>

theorem import_non_sequence_counterexample:
  "category_items Skincare (snd (reader_onload (Inr (JObj [(''skincare'', JObj [])])) empty_app))
     \<noteq> category_items Skincare empty_app"
  by (simp add: reader_onload_def then_do_def import_category_def setSkincareItems_def)

subsection \<open>Import of a malformed text\<close>

text \<open>
  Claim C4. When \<open>JSON.parse\<close> throws, the handler shows the failure alert and every
  store is as it was.
\<close>

theorem import_parse_failure:
  "reader_onload (Inl SyntaxError) s = (import_failure, s) \<and>
   handleImport (Some (Inl SyntaxError)) s = (Some import_failure, s)"
  by (simp add: reader_onload_def handleImport_def)

subsection \<open>Export followed by import\<close>

text \<open>
  Claim C5. Importing the document that \<open>handleExport\<close> built from a state gives the
  success alert and that state again, whatever the export time: into the same state
  always, and into any other state \<open>s0\<close> when each of the six stores holds a sequence.
  \<open>JSON.stringify\<close> followed by \<open>JSON.parse\<close>, the host's built-ins, return the value
  they were given.
\<close>

theorem export_import_roundtrip:
  "reader_onload (Inr (handleExport stamp s)) s = (import_success, s) \<and>
   ((\<forall>c. \<exists>xs. category_items c s = JArr xs) \<longrightarrow>
      reader_onload (Inr (handleExport stamp s)) s0 = (import_success, s))"
proof (intro conjI impI)
  have "snd (reader_onload (Inr (handleExport stamp s)) s) = s"
    by (rule app_eqI)
       (simp add: category_items_reader_onload imported_def js_get_handleExport)
  moreover have "fst (reader_onload (Inr (handleExport stamp s)) s) = import_success"
    by (simp add: reader_onload_stored handleExport_not_null)
  ultimately show "reader_onload (Inr (handleExport stamp s)) s = (import_success, s)"
    by (simp add: prod_eq_iff)
next
  assume "\<forall>c. \<exists>xs. category_items c s = JArr xs"
  then have t: "truthy (category_items c s)" for c
    by (metis truthy.simps(5))
  have "snd (reader_onload (Inr (handleExport stamp s)) s0) = s"
    by (rule app_eqI)
       (simp add: category_items_reader_onload imported_def js_get_handleExport t)
  moreover have "fst (reader_onload (Inr (handleExport stamp s)) s0) = import_success"
    by (simp add: reader_onload_stored handleExport_not_null)
  ultimately show "reader_onload (Inr (handleExport stamp s)) s0 = (import_success, s)"
    by (simp add: prod_eq_iff)
qed

text \<open>
  Witness for C5: the state with one exercise item, exported and imported over the state
  with six empty stores.
\<close>

theorem export_import_roundtrip_witness:
  "(\<forall>c. \<exists>xs. category_items c some_app = JArr xs) \<and>
   reader_onload (Inr (handleExport ''2026-11-02T10:00:00.000Z'' some_app)) empty_app
     = (import_success, some_app)"
proof -
  have h: "\<forall>c. \<exists>xs. category_items c some_app = JArr xs"
  proof
    fix c show "\<exists>xs. category_items c some_app = JArr xs"
      by (cases c) simp_all
  qed
  from export_import_roundtrip [of "''2026-11-02T10:00:00.000Z''" some_app empty_app] h
  have "reader_onload (Inr (handleExport ''2026-11-02T10:00:00.000Z'' some_app)) empty_app
     = (import_success, some_app)"
    by (elim conjE) (erule mp)
  with h show ?thesis by (intro conjI)
qed

end
